theory Spec2Isabelle
  imports Main
begin

section \<open>Route keys to icons and labels (CustomTabBar.tsx)\<close>

text \<open>
  \<open>getIconName\<close> and \<open>getTabLabel\<close> are the two \<open>switch\<close> statements of the tab bar
  component. Each case of the source is one branch here, in the source's order, and the
  \<open>default\<close> branch is the last \<open>else\<close>.
\<close>

definition getIconName :: "string \<Rightarrow> string" where
  "getIconName routeName =
     (if routeName = ''index'' then ''house.fill''
      else if routeName = ''recipients'' then ''person.2.fill''
      else if routeName = ''send-money'' then ''paperplane.fill''
      else if routeName = ''track'' then ''arrow.left.arrow.right''
      else if routeName = ''locations'' then ''location.fill''
      else ''house.fill'')"

definition getTabLabel :: "string \<Rightarrow> string" where
  "getTabLabel routeName =
     (if routeName = ''index'' then ''Home''
      else if routeName = ''recipients'' then ''Recipients''
      else if routeName = ''send-money'' then ''Send Money''
      else if routeName = ''track'' then ''Track''
      else if routeName = ''locations'' then ''Locations''
      else routeName)"

text \<open>The five path segments under which the layout registers its screens.\<close>

definition knownRoutes :: "string list" where
  "knownRoutes = [''index'', ''recipients'', ''send-money'', ''track'', ''locations'']"

section \<open>Theme palette (constants/Colors.ts)\<close>

record palette =
  text_color :: string
  background :: string
  tint :: string
  icon :: string
  tabIconDefault :: string
  tabIconSelected :: string
  tabBarBackground :: string
  primaryOrange :: string

definition tintColorLight :: string where
  "tintColorLight = ''#FF6B35''"

definition tintColorDark :: string where
  "tintColorDark = ''#FF6B35''"

text \<open>
  The value of the \<open>useColorScheme\<close> hook: \<open>'light'\<close>, \<open>'dark'\<close>, \<open>null\<close> or
  \<open>undefined\<close>.
\<close>

datatype ColorSchemeName = CS_light | CS_dark | CS_null | CS_undefined

text \<open>
  \<open>Colors\<close> is an object with the two keys \<open>light\<close> and \<open>dark\<close>. Indexing it with
  anything else gives \<open>undefined\<close>, which is \<open>None\<close> here.
\<close>

definition Colors :: "ColorSchemeName \<Rightarrow> palette option" where
  "Colors k =
     (case k of
        CS_light \<Rightarrow> Some \<lparr> text_color = ''#11181C'', background = ''#fff'',
          tint = tintColorLight, icon = ''#8E8E93'', tabIconDefault = ''#8E8E93'',
          tabIconSelected = ''#000000'', tabBarBackground = ''#FFFFFF'',
          primaryOrange = ''#FF6B35'' \<rparr>
      | CS_dark \<Rightarrow> Some \<lparr> text_color = ''#ECEDEE'', background = ''#151718'',
          tint = tintColorDark, icon = ''#8E8E93'', tabIconDefault = ''#8E8E93'',
          tabIconSelected = ''#FFFFFF'', tabBarBackground = ''#1C1C1E'',
          primaryOrange = ''#FF6B35'' \<rparr>
      | CS_null \<Rightarrow> None
      | CS_undefined \<Rightarrow> None)"

text \<open>The operator \<open>??\<close>: the right operand replaces \<open>null\<close> and \<open>undefined\<close> only.\<close>

definition nullish :: "ColorSchemeName \<Rightarrow> ColorSchemeName \<Rightarrow> ColorSchemeName" where
  "nullish a b = (case a of CS_null \<Rightarrow> b | CS_undefined \<Rightarrow> b | CS_light \<Rightarrow> a | CS_dark \<Rightarrow> a)"

text \<open>
  Both components evaluate \<open>Colors[colorScheme ?? 'light']\<close> and read a property of the
  result at once. Reading a property of \<open>undefined\<close> throws a \<open>TypeError\<close>.
\<close>

datatype error = TypeError

definition paletteFor :: "ColorSchemeName \<Rightarrow> error + palette" where
  "paletteFor colorScheme =
     (case Colors (nullish colorScheme CS_light) of
        None \<Rightarrow> Inl TypeError
      | Some colors \<Rightarrow> Inr colors)"

section \<open>Navigation state and the effects of a press (CustomTabBar.tsx)\<close>

record 'p route =
  key :: string
  name :: string
  params :: "'p option"

record 'p nav_state =
  routes :: "'p route list"
  index :: int

datatype ImpactFeedbackStyle = Light | Medium | Heavy | Soft | Rigid

text \<open>
  The promise returned by \<open>Haptics.impactAsync\<close>, by what becomes of it: it never
  settles, it is fulfilled, or it is rejected. \<open>impactAsync\<close> is an \<open>async\<close> function,
  so a failure of the haptics is a rejected promise and never an exception at the call.
\<close>

datatype promise = Pending | Fulfilled | Rejected

text \<open>
  What a caller does with a promise: nothing (the call is a statement of its own), wait
  for it with \<open>await\<close>, or attach a rejection handler with \<open>catch\<close>.
\<close>

datatype disposition = Dropped | Awaited | Caught

record tab_event =
  type :: string
  target :: string
  canPreventDefault :: bool

record emitted =
  defaultPrevented :: bool

text \<open>
  What the handler does to the outside world, in the order it does it: a haptic call, an
  event emitted on the navigation object, a navigation request.
\<close>

datatype 'p effect =
    ImpactAsync ImpactFeedbackStyle promise disposition
  | Emit tab_event
  | Navigate string "'p option"

text \<open>
  The collaborators the handler calls but does not define: the platform variable
  \<open>process.env.EXPO_OS\<close>, the answer of \<open>navigation.emit\<close> (which carries the veto of a
  listener) and the promise of \<open>Haptics.impactAsync\<close>.
\<close>

record env =
  EXPO_OS :: "string option"
  emit :: "tab_event \<Rightarrow> emitted"
  impactAsync :: "ImpactFeedbackStyle \<Rightarrow> promise"

text \<open>
  \<open>handleTabPress\<close> returns the list of its effects. The haptic call is a statement of
  its own in the source: the promise it returns is recorded with the call as \<open>Dropped\<close>,
  and nothing after the call reads it.
\<close>

definition handleTabPress :: "env \<Rightarrow> 'p route \<Rightarrow> int \<Rightarrow> bool \<Rightarrow> 'p effect list" where
  "handleTabPress e route idx isFocused =
     (let haptic =
            (if EXPO_OS e = Some ''ios'' then
               (let feedbackStyle = (if idx = 2 then Medium else Light);
                    pending = impactAsync e feedbackStyle
                in [ImpactAsync feedbackStyle pending Dropped])
             else []);
          request = \<lparr> type = ''tabPress'', target = key route, canPreventDefault = True \<rparr>;
          event = emit e request;
          switch =
            (if \<not> isFocused \<and> \<not> defaultPrevented event
             then [Navigate (name route) (params route)]
             else [])
      in haptic @ [Emit request] @ switch)"

text \<open>What a list of effects holds of each kind, in order.\<close>

fun navigations :: "'p effect list \<Rightarrow> (string \<times> 'p option) list" where
  "navigations [] = []"
| "navigations (Navigate n p # xs) = (n, p) # navigations xs"
| "navigations (ImpactAsync s p d # xs) = navigations xs"
| "navigations (Emit ev # xs) = navigations xs"

fun emissions :: "'p effect list \<Rightarrow> tab_event list" where
  "emissions [] = []"
| "emissions (Emit ev # xs) = ev # emissions xs"
| "emissions (ImpactAsync s p d # xs) = emissions xs"
| "emissions (Navigate n p # xs) = emissions xs"

fun haptics :: "'p effect list \<Rightarrow> ImpactFeedbackStyle list" where
  "haptics [] = []"
| "haptics (ImpactAsync s p d # xs) = s # haptics xs"
| "haptics (Emit ev # xs) = haptics xs"
| "haptics (Navigate n p # xs) = haptics xs"



section \<open>The style sheet (CustomTabBar.tsx)\<close>

datatype style_name =
    tabBar | topBorder | tabContainer | tabItem | centerButton
  | centerButtonContainer | regularTabContent | tabLabel | centerButtonLabel

text \<open>
  A style value is a whole number, a decimal fraction written as numerator and
  denominator, a string, or the width and height of a shadow offset.
\<close>

datatype style_value = Num int | Frac int int | Str string | Offset int int

type_synonym style = "(string \<times> style_value) list"

text \<open>
  \<open>Platform.select\<close> on an object with the keys \<open>ios\<close> and \<open>android\<close> only: on any
  other platform it is \<open>undefined\<close>, and spreading \<open>undefined\<close> adds nothing.
\<close>

definition Platform_select :: "string \<Rightarrow> style \<Rightarrow> style \<Rightarrow> style" where
  "Platform_select os ios android =
     (if os = ''ios'' then ios else if os = ''android'' then android else [])"

definition styles :: "string \<Rightarrow> style_name \<Rightarrow> style" where
  "styles os s =
     (case s of
        tabBar \<Rightarrow>
          [(''position'', Str ''absolute''), (''bottom'', Num 0), (''left'', Num 0),
           (''right'', Num 0),
           (''height'', Num (if os = ''ios'' then 88 else 68)),
           (''paddingBottom'', Num (if os = ''ios'' then 34 else 8)),
           (''paddingTop'', Num 8)]
          @ Platform_select os
              [(''shadowColor'', Str ''#000''), (''shadowOffset'', Offset 0 (- 1)),
               (''shadowOpacity'', Frac 1 10), (''shadowRadius'', Num 4)]
              [(''elevation'', Num 8)]
      | topBorder \<Rightarrow>
          [(''position'', Str ''absolute''), (''top'', Num 0), (''left'', Num 0),
           (''right'', Num 0), (''height'', Num 1), (''backgroundColor'', Str ''#E5E5E7'')]
      | tabContainer \<Rightarrow>
          [(''flex'', Num 1), (''flexDirection'', Str ''row''), (''alignItems'', Str ''center''),
           (''justifyContent'', Str ''space-around''), (''paddingHorizontal'', Num 16)]
      | tabItem \<Rightarrow>
          [(''flex'', Num 1), (''alignItems'', Str ''center''),
           (''justifyContent'', Str ''center''), (''paddingVertical'', Num 4)]
      | centerButton \<Rightarrow>
          [(''alignItems'', Str ''center''), (''justifyContent'', Str ''flex-start''),
           (''marginTop'', Num (- 8))]
      | centerButtonContainer \<Rightarrow>
          [(''width'', Num 56), (''height'', Num 56), (''borderRadius'', Num 28),
           (''alignItems'', Str ''center''), (''justifyContent'', Str ''center''),
           (''marginBottom'', Num 4)]
          @ Platform_select os
              [(''shadowColor'', Str ''#FF6B35''), (''shadowOffset'', Offset 0 2),
               (''shadowOpacity'', Frac 3 10), (''shadowRadius'', Num 4)]
              [(''elevation'', Num 6)]
      | regularTabContent \<Rightarrow>
          [(''alignItems'', Str ''center''), (''justifyContent'', Str ''center''),
           (''marginBottom'', Num 4)]
      | tabLabel \<Rightarrow>
          [(''fontSize'', Num 10), (''fontWeight'', Str ''500''),
           (''textAlign'', Str ''center''), (''marginTop'', Num 2)]
      | centerButtonLabel \<Rightarrow>
          [(''fontSize'', Num 10), (''fontWeight'', Str ''600'')])"

text \<open>
  An entry of a \<open>style\<close> array: a reference into the style sheet, an inline object with
  one colour, or the value \<open>false\<close> that \<open>cond && style\<close> leaves when the condition fails.
\<close>

datatype style_entry = Named style_name | BackgroundColor string | Color string | Falsy

section \<open>Rendering the tab bar (CustomTabBar.tsx)\<close>

record icon_symbol =
  icon_name :: string
  icon_size :: nat
  icon_color :: string

record view =
  view_style :: "style_entry list"
  view_icon :: icon_symbol

text \<open>
  One \<open>TouchableOpacity\<close>. The closure \<open>onPress\<close> is kept as the effects it has when
  it is called.
\<close>

record 'p tab_item =
  item_key :: string
  onPress :: "'p effect list"
  item_style :: "style_entry list"
  accessible :: bool
  accessibilityRole :: string
  accessibilityLabel :: string
  accessibilityState_selected :: bool
  content :: view
  label_style :: "style_entry list"
  numberOfLines :: nat
  label_text :: string

record 'p tab_bar =
  bar_style :: "style_entry list"
  border_style :: "style_entry list"
  container_style :: "style_entry list"
  items :: "'p tab_item list"

text \<open>The body of the callback given to \<open>state.routes.map\<close>.\<close>

definition renderRoute :: "env \<Rightarrow> palette \<Rightarrow> 'p nav_state \<Rightarrow> 'p route \<Rightarrow> nat \<Rightarrow> 'p tab_item" where
  "renderRoute e colors state route idx =
     (let isFocused = (index state = int idx);
          isCenterButton = (idx = 2);
          iconName = getIconName (name route);
          label = getTabLabel (name route)
      in \<lparr> item_key = key route,
           onPress = handleTabPress e route (int idx) isFocused,
           item_style = [Named tabItem, if isCenterButton then Named centerButton else Falsy],
           accessible = True,
           accessibilityRole = ''button'',
           accessibilityLabel = label @ '' tab'',
           accessibilityState_selected = isFocused,
           content =
             (if isCenterButton then
                \<lparr> view_style =
                    [Named centerButtonContainer, BackgroundColor (primaryOrange colors)],
                  view_icon =
                    \<lparr> icon_name = iconName, icon_size = 24, icon_color = ''#FFFFFF'' \<rparr> \<rparr>
              else
                \<lparr> view_style = [Named regularTabContent],
                  view_icon =
                    \<lparr> icon_name = iconName, icon_size = 24,
                      icon_color =
                        (if isFocused then tabIconSelected colors
                         else tabIconDefault colors) \<rparr> \<rparr>),
           label_style =
             [Named tabLabel,
              Color (if isCenterButton then tabIconSelected colors
                     else if isFocused then tabIconSelected colors
                     else tabIconDefault colors),
              if isCenterButton then Named centerButtonLabel else Falsy],
           numberOfLines = 1,
           label_text = label \<rparr>)"

definition CustomTabBar :: "env \<Rightarrow> ColorSchemeName \<Rightarrow> 'p nav_state \<Rightarrow> error + 'p tab_bar" where
  "CustomTabBar e colorScheme state =
     (case paletteFor colorScheme of
        Inl err \<Rightarrow> Inl err
      | Inr colors \<Rightarrow>
          Inr \<lparr> bar_style = [Named tabBar, BackgroundColor (tabBarBackground colors)],
                border_style = [Named topBorder],
                container_style = [Named tabContainer],
                items =
                  map (\<lambda>(idx, route). renderRoute e colors state route idx)
                    (enumerate 0 (routes state)) \<rparr>)"

text \<open>
  A tap on the item at position \<open>i\<close> of a rendered bar; there is nothing to tap beyond
  the last item.
\<close>

definition pressTab :: "'p tab_bar \<Rightarrow> nat \<Rightarrow> 'p effect list option" where
  "pressTab bar i = (if i < length (items bar) then Some (onPress (items bar ! i)) else None)"

text \<open>The event that a press on a route asks the navigation object to emit.\<close>

definition tabPressEvent :: "'p route \<Rightarrow> tab_event" where
  "tabPressEvent route = \<lparr> type = ''tabPress'', target = key route, canPreventDefault = True \<rparr>"

text \<open>
  The two looks of an item. The elevated look is the \<open>centerButton\<close> style on the item
  and the circular container filled with the accent colour around a white icon. The
  neutral look is the plain item whose icon and label take the selected or the default
  colour.
\<close>

definition elevated :: "palette \<Rightarrow> 'p tab_item \<Rightarrow> bool" where
  "elevated colors it =
     (item_style it = [Named tabItem, Named centerButton]
      \<and> view_style (content it) =
          [Named centerButtonContainer, BackgroundColor (primaryOrange colors)]
      \<and> icon_color (view_icon (content it)) = ''#FFFFFF'')"

definition neutral :: "palette \<Rightarrow> bool \<Rightarrow> 'p tab_item \<Rightarrow> bool" where
  "neutral colors focused it =
     (item_style it = [Named tabItem, Falsy]
      \<and> view_style (content it) = [Named regularTabContent]
      \<and> icon_color (view_icon (content it)) =
          (if focused then tabIconSelected colors else tabIconDefault colors)
      \<and> label_style it =
          [Named tabLabel,
           Color (if focused then tabIconSelected colors else tabIconDefault colors),
           Falsy])"

text \<open>
  For each rendered item, in order, whether it has the elevated look.
\<close>

definition elevatedFlags :: "env \<Rightarrow> ColorSchemeName \<Rightarrow> 'p nav_state \<Rightarrow> error + bool list" where
  "elevatedFlags e colorScheme state =
     (case paletteFor colorScheme of
        Inl err \<Rightarrow> Inl err
      | Inr colors \<Rightarrow>
          (case CustomTabBar e colorScheme state of
             Inl err \<Rightarrow> Inl err
           | Inr bar \<Rightarrow> Inr (map (elevated colors) (items bar))))"

section \<open>The tab layout (app/(tabs)/_layout.tsx)\<close>

datatype js_value = JStr string | JBool bool | JObj "(string \<times> js_value) list"

type_synonym props = "(string \<times> js_value) list"

record 'p tabs =
  tabBar_prop :: "ColorSchemeName \<Rightarrow> 'p nav_state \<Rightarrow> error + 'p tab_bar"
  screenOptions :: props
  children :: "props list"

text \<open>
  The layout reads the palette twice, once for each tint. Each \<open>Tabs.Screen\<close> child is
  the list of the props it is given.
\<close>

definition TabLayout :: "env \<Rightarrow> ColorSchemeName \<Rightarrow> error + 'p tabs" where
  "TabLayout e colorScheme =
     (case paletteFor colorScheme of
        Inl err \<Rightarrow> Inl err
      | Inr active \<Rightarrow>
          (case paletteFor colorScheme of
             Inl err \<Rightarrow> Inl err
           | Inr inactive \<Rightarrow>
               Inr \<lparr> tabBar_prop = CustomTabBar e,
                     screenOptions =
                       [(''headerShown'', JBool False),
                        (''tabBarActiveTintColor'', JStr (tabIconSelected active)),
                        (''tabBarInactiveTintColor'', JStr (tabIconDefault inactive))],
                     children =
                       [[(''name'', JStr ''index''),
                         (''options'', JObj [(''title'', JStr ''Home''),
                                             (''tabBarLabel'', JStr ''Home'')])],
                        [(''name'', JStr ''recipients''),
                         (''options'', JObj [(''title'', JStr ''Recipients''),
                                             (''tabBarLabel'', JStr ''Recipients'')])],
                        [(''name'', JStr ''send-money''),
                         (''options'', JObj [(''title'', JStr ''Send Money''),
                                             (''tabBarLabel'', JStr ''Send Money'')])],
                        [(''name'', JStr ''track''),
                         (''options'', JObj [(''title'', JStr ''Track''),
                                             (''tabBarLabel'', JStr ''Track'')])],
                        [(''name'', JStr ''locations''),
                         (''options'', JObj [(''title'', JStr ''Locations''),
                                             (''tabBarLabel'', JStr ''Locations'')])]] \<rparr>))"

text \<open>What a \<open>Tabs.Screen\<close> child is registered under, and the keys of its options.\<close>

definition screenName :: "props \<Rightarrow> string option" where
  "screenName screen =
     (case map_of screen ''name'' of Some (JStr n) \<Rightarrow> Some n | _ \<Rightarrow> None)"

definition screenOptionKeys :: "props \<Rightarrow> string list option" where
  "screenOptionKeys screen =
     (case map_of screen ''options'' of Some (JObj kvs) \<Rightarrow> Some (map fst kvs) | _ \<Rightarrow> None)"

section \<open>Sample inputs\<close>

text \<open>
  The five routes of the application with keys as the navigation library generates them,
  two of them with parameters, and an environment whose listeners veto the presses on the
  given targets and whose haptic promise is rejected.
\<close>

abbreviation sampleRoutes :: "nat route list" where
  "sampleRoutes \<equiv>
     [\<lparr> key = ''index-a'', name = ''index'', params = None \<rparr>,
      \<lparr> key = ''recipients-b'', name = ''recipients'', params = None \<rparr>,
      \<lparr> key = ''send-money-c'', name = ''send-money'', params = Some 42 \<rparr>,
      \<lparr> key = ''track-d'', name = ''track'', params = Some 7 \<rparr>,
      \<lparr> key = ''locations-e'', name = ''locations'', params = None \<rparr>]"

abbreviation sampleEnv :: "string \<Rightarrow> string list \<Rightarrow> env" where
  "sampleEnv os vetoed \<equiv>
     \<lparr> EXPO_OS = Some os,
       emit = (\<lambda>ev. \<lparr> defaultPrevented = (target ev \<in> set vetoed) \<rparr>),
       impactAsync = (\<lambda>s. Rejected) \<rparr>"

section \<open>The mapper on known and unknown keys\<close>

lemma getIconName_unknown:
  "routeName \<notin> set knownRoutes \<Longrightarrow> getIconName routeName = ''house.fill''"
  by (simp add: getIconName_def knownRoutes_def)

lemma getTabLabel_unknown:
  "routeName \<notin> set knownRoutes \<Longrightarrow> getTabLabel routeName = routeName"
  by (simp add: getTabLabel_def knownRoutes_def)

text \<open>
  C1 (as the code has it). The mapper is a total function. On the five known keys it
  returns the documented (label, icon) pairs. On any other key the icon is the Home icon
  \<open>house.fill\<close>, and the label is the key itself, not \<open>Home\<close>.
\<close>

theorem mapper_pairs:
  "(getTabLabel ''index'', getIconName ''index'') = (''Home'', ''house.fill'')
   \<and> (getTabLabel ''recipients'', getIconName ''recipients'') = (''Recipients'', ''person.2.fill'')
   \<and> (getTabLabel ''send-money'', getIconName ''send-money'') = (''Send Money'', ''paperplane.fill'')
   \<and> (getTabLabel ''track'', getIconName ''track'') = (''Track'', ''arrow.left.arrow.right'')
   \<and> (getTabLabel ''locations'', getIconName ''locations'') = (''Locations'', ''location.fill'')
   \<and> (routeName \<notin> set knownRoutes \<longrightarrow>
        (getTabLabel routeName, getIconName routeName) = (routeName, ''house.fill''))"
  by (simp add: getTabLabel_def getIconName_def knownRoutes_def)

theorem mapper_pairs_witness:
  "''settings'' \<notin> set knownRoutes
   \<and> (getTabLabel ''settings'', getIconName ''settings'') = (''settings'', ''house.fill'')"
  using mapper_pairs [of "''settings''"] by (simp add: knownRoutes_def)

text \<open>
  C1 (as the spec words it) fails: for the unknown key \<open>settings\<close> the mapper does not
  return the Home pair, because the label is the key.
\<close>

theorem mapper_fallback_counterexample:
  "''settings'' \<notin> set knownRoutes
   \<and> (getTabLabel ''settings'', getIconName ''settings'') \<noteq> (''Home'', ''house.fill'')"
  by (simp add: getTabLabel_def getIconName_def knownRoutes_def)

section \<open>The palette is always found\<close>

lemma paletteFor_total: "\<exists>colors. paletteFor colorScheme = Inr colors"
  by (cases colorScheme) (simp_all add: paletteFor_def nullish_def Colors_def)

section \<open>What a press does\<close>

lemma navigations_handleTabPress:
  "navigations (handleTabPress e route idx isFocused) =
     (if \<not> isFocused \<and> \<not> defaultPrevented (emit e (tabPressEvent route))
      then [(name route, params route)] else [])"
  by (simp add: handleTabPress_def tabPressEvent_def Let_def)

lemma emissions_handleTabPress:
  "emissions (handleTabPress e route idx isFocused) = [tabPressEvent route]"
  by (simp add: handleTabPress_def tabPressEvent_def Let_def)


lemma handleTabPress_split:
  "\<exists>pre post. handleTabPress e route idx isFocused = pre @ Emit (tabPressEvent route) # post
      \<and> emissions pre = [] \<and> navigations pre = []
      \<and> emissions post = [] \<and> haptics post = []"
proof -
  let ?pre = "if EXPO_OS e = Some ''ios''
              then [ImpactAsync (if idx = 2 then Medium else Light)
                      (impactAsync e (if idx = 2 then Medium else Light)) Dropped]
              else []"
  let ?post = "if \<not> isFocused \<and> \<not> defaultPrevented (emit e (tabPressEvent route))
               then [Navigate (name route) (params route)] else []"
  have "handleTabPress e route idx isFocused = ?pre @ Emit (tabPressEvent route) # ?post"
    by (simp add: handleTabPress_def tabPressEvent_def Let_def)
  moreover have "emissions ?pre = []" "navigations ?pre = []"
    "emissions ?post = []" "haptics ?post = []"
    by simp_all
  ultimately show ?thesis by blast
qed




section \<open>What is rendered\<close>

lemma CustomTabBar_items:
  assumes "paletteFor colorScheme = Inr colors"
  shows "\<exists>bar. CustomTabBar e colorScheme state = Inr bar
           \<and> length (items bar) = length (routes state)
           \<and> (\<forall>i < length (routes state).
                items bar ! i = renderRoute e colors state (routes state ! i) i)"
  using assms by (simp add: CustomTabBar_def nth_enumerate_eq)

lemma onPress_renderRoute:
  "onPress (renderRoute e colors state route i) =
     handleTabPress e route (int i) (index state = int i)"
  by (simp add: renderRoute_def Let_def)

lemma press_rendered:
  assumes "i < length (routes state)"
  shows "\<exists>bar. CustomTabBar e colorScheme state = Inr bar
           \<and> pressTab bar i =
               Some (handleTabPress e (routes state ! i) (int i) (index state = int i))"
proof -
  obtain colors where c: "paletteFor colorScheme = Inr colors"
    using paletteFor_total by blast
  from CustomTabBar_items [OF c] obtain bar where
    bar: "CustomTabBar e colorScheme state = Inr bar"
    and len: "length (items bar) = length (routes state)"
    and nth: "\<forall>i < length (routes state).
                items bar ! i = renderRoute e colors state (routes state ! i) i"
    by blast
  from assms len nth have
    "pressTab bar i = Some (handleTabPress e (routes state ! i) (int i) (index state = int i))"
    by (simp add: pressTab_def onPress_renderRoute)
  with bar show ?thesis by blast
qed

lemma label_renderRoute:
  "label_text (renderRoute e colors state route i) = getTabLabel (name route)
   \<and> accessibilityLabel (renderRoute e colors state route i) = getTabLabel (name route) @ '' tab''
   \<and> icon_name (view_icon (content (renderRoute e colors state route i)))
       = getIconName (name route)"
  by (simp add: renderRoute_def Let_def)

text \<open>
  Every rendered item shows the label and the icon that the mapper gives for the name of
  its route.
\<close>

lemma rendered_label_and_icon:
  assumes "i < length (routes state)"
  shows "\<exists>bar. CustomTabBar e colorScheme state = Inr bar
           \<and> label_text (items bar ! i) = getTabLabel (name (routes state ! i))
           \<and> accessibilityLabel (items bar ! i)
               = getTabLabel (name (routes state ! i)) @ '' tab''
           \<and> icon_name (view_icon (content (items bar ! i)))
               = getIconName (name (routes state ! i))"
proof -
  obtain colors where c: "paletteFor colorScheme = Inr colors"
    using paletteFor_total by blast
  from CustomTabBar_items [OF c] obtain bar where
    bar: "CustomTabBar e colorScheme state = Inr bar"
    and nth: "\<forall>i < length (routes state).
                items bar ! i = renderRoute e colors state (routes state ! i) i"
    by blast
  from assms nth have "items bar ! i = renderRoute e colors state (routes state ! i) i"
    by simp
  with bar show ?thesis by (simp add: label_renderRoute)
qed

lemma elevated_renderRoute:
  "elevated colors (renderRoute e colors state route i) = (i = 2)"
  by (simp add: elevated_def renderRoute_def Let_def)

lemma neutral_renderRoute:
  "i \<noteq> 2 \<Longrightarrow> neutral colors (index state = int i) (renderRoute e colors state route i)"
  by (simp add: neutral_def renderRoute_def Let_def)

lemma count_center: "count_list (map (\<lambda>i. i = 2) [0..<n]) True = (if 2 < n then 1 else 0)"
  by (induction n) auto

lemma elevated_items:
  assumes "length xs = n" and "\<forall>i<n. xs ! i = renderRoute e colors state (rs ! i) i"
  shows "map (elevated colors) xs = map (\<lambda>i. i = 2) [0..<n]"
  using assms by (auto simp: list_eq_iff_nth_eq elevated_renderRoute)

lemma elevatedFlags_eq:
  "elevatedFlags e colorScheme state = Inr (map (\<lambda>i. i = 2) [0..<length (routes state)])"
proof -
  obtain colors where c: "paletteFor colorScheme = Inr colors"
    using paletteFor_total by blast
  from CustomTabBar_items [OF c] obtain bar where
    bar: "CustomTabBar e colorScheme state = Inr bar"
    and len: "length (items bar) = length (routes state)"
    and nth: "\<forall>i < length (routes state).
                items bar ! i = renderRoute e colors state (routes state ! i) i"
    by blast
  from elevated_items [OF len nth] show ?thesis
    by (simp add: elevatedFlags_def c bar)
qed

lemma TabLayout_total:
  assumes "paletteFor colorScheme = Inr colors"
  shows "TabLayout e colorScheme =
     Inr \<lparr> tabBar_prop = CustomTabBar e,
           screenOptions =
             [(''headerShown'', JBool False),
              (''tabBarActiveTintColor'', JStr (tabIconSelected colors)),
              (''tabBarInactiveTintColor'', JStr (tabIconDefault colors))],
           children =
             [[(''name'', JStr ''index''),
               (''options'', JObj [(''title'', JStr ''Home''),
                                   (''tabBarLabel'', JStr ''Home'')])],
              [(''name'', JStr ''recipients''),
               (''options'', JObj [(''title'', JStr ''Recipients''),
                                   (''tabBarLabel'', JStr ''Recipients'')])],
              [(''name'', JStr ''send-money''),
               (''options'', JObj [(''title'', JStr ''Send Money''),
                                   (''tabBarLabel'', JStr ''Send Money'')])],
              [(''name'', JStr ''track''),
               (''options'', JObj [(''title'', JStr ''Track''),
                                   (''tabBarLabel'', JStr ''Track'')])],
              [(''name'', JStr ''locations''),
               (''options'', JObj [(''title'', JStr ''Locations''),
                                   (''tabBarLabel'', JStr ''Locations'')])]] \<rparr>"
  using assms by (simp add: TabLayout_def)

section \<open>The label of an unknown route\<close>

text \<open>
  C9. For every route key outside the five known keys, \<open>getTabLabel\<close> returns the key
  unchanged: the default branch is the identity. So the item rendered for a route with
  such a name shows the raw key as its label, and its accessibility label is the key
  followed by \<open>tab\<close>.
\<close>

theorem getTabLabel_default_identity:
  assumes "routeName \<notin> set knownRoutes"
  shows "getTabLabel routeName = routeName
    \<and> (i < length (routes state) \<and> name (routes state ! i) = routeName \<longrightarrow>
         (\<exists>bar. CustomTabBar e colorScheme state = Inr bar
            \<and> label_text (items bar ! i) = routeName
            \<and> accessibilityLabel (items bar ! i) = routeName @ '' tab''))"
proof -
  from assms have label: "getTabLabel routeName = routeName"
    by (rule getTabLabel_unknown)
  have "\<exists>bar. CustomTabBar e colorScheme state = Inr bar
            \<and> label_text (items bar ! i) = routeName
            \<and> accessibilityLabel (items bar ! i) = routeName @ '' tab''"
    if inside: "i < length (routes state)" and named: "name (routes state ! i) = routeName"
    using rendered_label_and_icon [OF inside, of e colorScheme] named label by auto
  with label show ?thesis by blast
qed

theorem getTabLabel_default_identity_witness:
  "''profile'' \<notin> set knownRoutes
   \<and> getTabLabel ''profile'' = ''profile''
   \<and> getTabLabel ''profile'' \<noteq> ''Home''
   \<and> (1::nat) < length (routes
         \<lparr> routes = [\<lparr> key = ''index-a'', name = ''index'', params = None :: nat option \<rparr>,
                     \<lparr> key = ''profile-x'', name = ''profile'', params = None \<rparr>],
           index = 0 \<rparr>)
   \<and> (\<exists>bar. CustomTabBar (sampleEnv ''ios'' []) CS_light
         \<lparr> routes = [\<lparr> key = ''index-a'', name = ''index'', params = None :: nat option \<rparr>,
                     \<lparr> key = ''profile-x'', name = ''profile'', params = None \<rparr>],
           index = 0 \<rparr> = Inr bar
       \<and> label_text (items bar ! 1) = ''profile''
       \<and> label_text (items bar ! 1) \<noteq> ''Home''
       \<and> accessibilityLabel (items bar ! 1) = ''profile tab'')"
proof -
  let ?st = "\<lparr> routes = [\<lparr> key = ''index-a'', name = ''index'', params = None :: nat option \<rparr>,
                     \<lparr> key = ''profile-x'', name = ''profile'', params = None \<rparr>],
           index = 0 \<rparr>"
  have out: "''profile'' \<notin> set knownRoutes" by (simp add: knownRoutes_def)
  have inside: "(1::nat) < length (routes ?st)" by simp
  have named: "name (routes ?st ! 1) = ''profile''" by simp
  from getTabLabel_default_identity [OF out, of 1 ?st "sampleEnv ''ios'' []" CS_light]
    inside named
  obtain bar where
    label: "getTabLabel ''profile'' = ''profile''"
    and bar: "CustomTabBar (sampleEnv ''ios'' []) CS_light ?st = Inr bar"
    and shown: "label_text (items bar ! 1) = ''profile''"
    and spoken: "accessibilityLabel (items bar ! 1) = ''profile'' @ '' tab''"
    by blast
  from label have notHome: "getTabLabel ''profile'' \<noteq> ''Home''" by simp
  from shown have notHome': "label_text (items bar ! 1) \<noteq> ''Home''" by simp
  from spoken have spoken': "accessibilityLabel (items bar ! 1) = ''profile tab''" by simp
  from out label notHome inside bar shown notHome' spoken' show ?thesis by blast
qed

section \<open>Pressing a tab\<close>

text \<open>
  C2. For every navigation state and every pressed index \<open>i\<close> of a rendered item: if
  \<open>i\<close> is not the active index and the emitted tab-press event is not vetoed, the press
  issues exactly one navigation request, addressed to the name of the route at index
  \<open>i\<close>, with the params of that route unchanged.
\<close>

theorem press_other_tab_navigates_once:
  assumes "i < length (routes state)"
    and "index state \<noteq> int i"
    and "\<not> defaultPrevented (emit e (tabPressEvent (routes state ! i)))"
  shows "\<exists>bar trace. CustomTabBar e colorScheme state = Inr bar
           \<and> pressTab bar i = Some trace
           \<and> navigations trace = [(name (routes state ! i), params (routes state ! i))]"
proof -
  from press_rendered [OF assms(1)] obtain bar where
    "CustomTabBar e colorScheme state = Inr bar"
    "pressTab bar i =
       Some (handleTabPress e (routes state ! i) (int i) (index state = int i))"
    by blast
  moreover from assms(2,3) have
    "navigations (handleTabPress e (routes state ! i) (int i) (index state = int i)) =
       [(name (routes state ! i), params (routes state ! i))]"
    by (simp add: navigations_handleTabPress)
  ultimately show ?thesis by blast
qed

theorem press_other_tab_navigates_once_witness:
  "(2::nat) < length (routes \<lparr> routes = sampleRoutes, index = 0 \<rparr>)
   \<and> index \<lparr> routes = sampleRoutes, index = 0 \<rparr> \<noteq> int 2
   \<and> \<not> defaultPrevented (emit (sampleEnv ''ios'' [''track-d''])
          (tabPressEvent (routes \<lparr> routes = sampleRoutes, index = 0 \<rparr> ! 2)))
   \<and> (\<exists>bar trace.
         CustomTabBar (sampleEnv ''ios'' [''track-d'']) CS_dark
           \<lparr> routes = sampleRoutes, index = 0 \<rparr> = Inr bar
         \<and> pressTab bar 2 = Some trace
         \<and> navigations trace = [(''send-money'', Some 42)])"
proof -
  have inside: "(2::nat) < length (routes \<lparr> routes = sampleRoutes, index = 0 \<rparr>)"
    by simp
  have other: "index \<lparr> routes = sampleRoutes, index = 0 \<rparr> \<noteq> int 2"
    by simp
  have free: "\<not> defaultPrevented (emit (sampleEnv ''ios'' [''track-d''])
          (tabPressEvent (routes \<lparr> routes = sampleRoutes, index = 0 \<rparr> ! 2)))"
    by (simp add: tabPressEvent_def)
  from press_other_tab_navigates_once [OF inside other free, of CS_dark]
  have "\<exists>bar trace.
         CustomTabBar (sampleEnv ''ios'' [''track-d'']) CS_dark
           \<lparr> routes = sampleRoutes, index = 0 \<rparr> = Inr bar
         \<and> pressTab bar 2 = Some trace
         \<and> navigations trace = [(''send-money'', Some 42)]"
    by simp
  with inside other free show ?thesis by blast
qed

text \<open>
  C3. If the emitted tab-press event comes back with \<open>defaultPrevented\<close> set, the press
  issues no navigation request, for every navigation state and every pressed index, and
  whatever index and focus flag the handler is called with.
\<close>

theorem vetoed_press_never_navigates:
  assumes "i < length (routes state)"
    and "defaultPrevented (emit e (tabPressEvent (routes state ! i)))"
  shows "\<exists>bar trace. CustomTabBar e colorScheme state = Inr bar
           \<and> pressTab bar i = Some trace
           \<and> navigations trace = []
           \<and> navigations (handleTabPress e (routes state ! i) idx isFocused) = []"
proof -
  from press_rendered [OF assms(1)] obtain bar where
    "CustomTabBar e colorScheme state = Inr bar"
    "pressTab bar i =
       Some (handleTabPress e (routes state ! i) (int i) (index state = int i))"
    by blast
  moreover from assms(2) have
    "navigations (handleTabPress e (routes state ! i) j f) = []" for j f
    by (simp add: navigations_handleTabPress)
  ultimately show ?thesis by simp
qed

theorem vetoed_press_never_navigates_witness:
  "(3::nat) < length (routes \<lparr> routes = sampleRoutes, index = 0 \<rparr>)
   \<and> defaultPrevented (emit (sampleEnv ''ios'' [''track-d''])
        (tabPressEvent (routes \<lparr> routes = sampleRoutes, index = 0 \<rparr> ! 3)))
   \<and> (\<exists>bar trace.
         CustomTabBar (sampleEnv ''ios'' [''track-d'']) CS_light
           \<lparr> routes = sampleRoutes, index = 0 \<rparr> = Inr bar
         \<and> pressTab bar 3 = Some trace
         \<and> navigations trace = [])"
proof -
  have inside: "(3::nat) < length (routes \<lparr> routes = sampleRoutes, index = 0 \<rparr>)"
    by simp
  have veto: "defaultPrevented (emit (sampleEnv ''ios'' [''track-d''])
        (tabPressEvent (routes \<lparr> routes = sampleRoutes, index = 0 \<rparr> ! 3)))"
    by (simp add: tabPressEvent_def)
  from vetoed_press_never_navigates [OF inside veto, of CS_light] inside veto
  show ?thesis by blast
qed

text \<open>
  C4. A press on the item whose index is the active index issues no navigation request,
  whether or not the event is vetoed.
\<close>

theorem press_active_tab_never_navigates:
  assumes "i < length (routes state)"
    and "index state = int i"
  shows "\<exists>bar trace. CustomTabBar e colorScheme state = Inr bar
           \<and> pressTab bar i = Some trace
           \<and> navigations trace = []"
proof -
  from press_rendered [OF assms(1)] obtain bar where
    "CustomTabBar e colorScheme state = Inr bar"
    "pressTab bar i =
       Some (handleTabPress e (routes state ! i) (int i) (index state = int i))"
    by blast
  moreover from assms(2) have
    "navigations (handleTabPress e (routes state ! i) (int i) (index state = int i)) = []"
    by (simp add: navigations_handleTabPress)
  ultimately show ?thesis by simp
qed

theorem press_active_tab_never_navigates_witness:
  "(1::nat) < length (routes \<lparr> routes = sampleRoutes, index = 1 \<rparr>)
   \<and> index \<lparr> routes = sampleRoutes, index = 1 \<rparr> = int 1
   \<and> \<not> defaultPrevented (emit (sampleEnv ''android'' []) (tabPressEvent (sampleRoutes ! 1)))
   \<and> (\<exists>bar trace.
         CustomTabBar (sampleEnv ''android'' []) CS_null
           \<lparr> routes = sampleRoutes, index = 1 \<rparr> = Inr bar
         \<and> pressTab bar 1 = Some trace
         \<and> navigations trace = [])"
  using press_active_tab_never_navigates
    [of 1 "\<lparr> routes = sampleRoutes, index = 1 \<rparr>" "sampleEnv ''android'' []" CS_null]
  by (simp add: tabPressEvent_def)

text \<open>
  C6. Every press, also a press on the active tab, emits exactly one event: it has type
  \<open>tabPress\<close>, can be prevented, and targets the key of the route at the pressed index.
  Nothing that precedes the emission in the handler is a navigation request.
\<close>

theorem press_emits_one_tabPress_first:
  assumes "i < length (routes state)"
  shows "\<exists>bar trace pre post.
             CustomTabBar e colorScheme state = Inr bar
           \<and> pressTab bar i = Some trace
           \<and> emissions trace = [tabPressEvent (routes state ! i)]
           \<and> type (tabPressEvent (routes state ! i)) = ''tabPress''
           \<and> canPreventDefault (tabPressEvent (routes state ! i))
           \<and> target (tabPressEvent (routes state ! i)) = key (routes state ! i)
           \<and> trace = pre @ Emit (tabPressEvent (routes state ! i)) # post
           \<and> navigations pre = []"
proof -
  from press_rendered [OF assms(1)] obtain bar where
    bar: "CustomTabBar e colorScheme state = Inr bar"
    and press: "pressTab bar i =
       Some (handleTabPress e (routes state ! i) (int i) (index state = int i))"
    by blast
  from handleTabPress_split obtain pre post where
    "handleTabPress e (routes state ! i) (int i) (index state = int i) =
       pre @ Emit (tabPressEvent (routes state ! i)) # post"
    "navigations pre = []"
    by blast
  moreover have "emissions (handleTabPress e (routes state ! i) (int i) (index state = int i))
      = [tabPressEvent (routes state ! i)]"
    by (rule emissions_handleTabPress)
  moreover have "type (tabPressEvent (routes state ! i)) = ''tabPress''
      \<and> canPreventDefault (tabPressEvent (routes state ! i))
      \<and> target (tabPressEvent (routes state ! i)) = key (routes state ! i)"
    by (simp add: tabPressEvent_def)
  ultimately show ?thesis using bar press by metis
qed

theorem press_emits_one_tabPress_first_witness:
  "(0::nat) < length (routes \<lparr> routes = sampleRoutes, index = 0 \<rparr>)
   \<and> (\<exists>bar trace pre post.
         CustomTabBar (sampleEnv ''ios'' [''index-a'']) CS_dark
           \<lparr> routes = sampleRoutes, index = 0 \<rparr> = Inr bar
         \<and> pressTab bar 0 = Some trace
         \<and> emissions trace =
             [\<lparr> type = ''tabPress'', target = ''index-a'', canPreventDefault = True \<rparr>]
         \<and> trace = pre @ Emit \<lparr> type = ''tabPress'', target = ''index-a'',
                                canPreventDefault = True \<rparr> # post
         \<and> navigations pre = [])"
proof -
  have inside: "(0::nat) < length (routes \<lparr> routes = sampleRoutes, index = 0 \<rparr>)"
    by simp
  have ev: "tabPressEvent (routes \<lparr> routes = sampleRoutes, index = 0 \<rparr> ! 0)
      = \<lparr> type = ''tabPress'', target = ''index-a'', canPreventDefault = True \<rparr>"
    by (simp add: tabPressEvent_def)
  from press_emits_one_tabPress_first
    [OF inside, of "sampleEnv ''ios'' [''index-a'']" CS_dark] inside
  show ?thesis unfolding ev by blast
qed

section \<open>The haptic call\<close>




section \<open>The elevated item\<close>

text \<open>
  C5 (as the spec words it) fails: a bar rendered from two routes has no elevated item.
\<close>

theorem two_routes_none_elevated_counterexample:
  "elevatedFlags (sampleEnv ''ios'' []) CS_light
     \<lparr> routes = [\<lparr> key = ''index-a'', name = ''index'', params = None :: nat option \<rparr>,
                 \<lparr> key = ''recipients-b'', name = ''recipients'', params = None \<rparr>],
       index = 0 \<rparr> = Inr [False, False]
   \<and> count_list [False, False] True \<noteq> 1"
  by (simp add: elevatedFlags_eq upt_rec)

text \<open>
  C5 (as the code has it). For every render state the elevated items are exactly those
  at index 2, so with at least three routes exactly one item is elevated, and with fewer
  none is. Every other item has the neutral look in the selected or the default colour.
  Which items are elevated is the same for every active index. The elevated look is an
  item moved up by 8, around a circle of diameter 56 filled with the accent colour.
\<close>

theorem elevated_only_at_index_two:
  "\<exists>bar colors flags.
      paletteFor colorScheme = Inr colors
    \<and> CustomTabBar e colorScheme state = Inr bar
    \<and> length (items bar) = length (routes state)
    \<and> elevatedFlags e colorScheme state = Inr flags
    \<and> flags = map (\<lambda>i. i = 2) [0..<length (routes state)]
    \<and> (2 < length (routes state) \<longrightarrow>
         count_list flags True = 1 \<and> elevated colors (items bar ! 2))
    \<and> (\<forall>i<length (routes state). i \<noteq> 2 \<longrightarrow>
         neutral colors (index state = int i) (items bar ! i))
    \<and> (\<forall>active. elevatedFlags e colorScheme (state\<lparr>index := active\<rparr>) = Inr flags)
    \<and> map_of (styles os centerButton) ''marginTop'' = Some (Num (- 8))
    \<and> map_of (styles os centerButtonContainer) ''width'' = Some (Num 56)
    \<and> map_of (styles os centerButtonContainer) ''height'' = Some (Num 56)
    \<and> map_of (styles os centerButtonContainer) ''borderRadius'' = Some (Num 28)
    \<and> primaryOrange colors = ''#FF6B35''"
proof -
  obtain colors where c: "paletteFor colorScheme = Inr colors"
    using paletteFor_total by blast
  from CustomTabBar_items [OF c] obtain bar where
    bar: "CustomTabBar e colorScheme state = Inr bar"
    and len: "length (items bar) = length (routes state)"
    and nth: "\<forall>i < length (routes state).
                items bar ! i = renderRoute e colors state (routes state ! i) i"
    by blast
  let ?flags = "map (\<lambda>i. i = 2) [0..<length (routes state)]"
  have flags: "map (elevated colors) (items bar) = ?flags"
    by (rule elevated_items [OF len nth])
  have ef: "elevatedFlags e colorScheme state = Inr ?flags"
    by (simp add: elevatedFlags_def c bar flags)
  have one: "2 < length (routes state) \<longrightarrow>
         count_list ?flags True = 1 \<and> elevated colors (items bar ! 2)"
    using nth by (simp add: count_center elevated_renderRoute)
  have others: "\<forall>i<length (routes state). i \<noteq> 2 \<longrightarrow>
         neutral colors (index state = int i) (items bar ! i)"
    using nth by (simp add: neutral_renderRoute)
  have indep: "\<forall>active. elevatedFlags e colorScheme (state\<lparr>index := active\<rparr>) = Inr ?flags"
  proof
    fix active
    from CustomTabBar_items [OF c, of e "state\<lparr>index := active\<rparr>"] obtain bar' where
      bar': "CustomTabBar e colorScheme (state\<lparr>index := active\<rparr>) = Inr bar'"
      and len': "length (items bar') = length (routes state)"
      and nth': "\<forall>i < length (routes state).
                items bar' ! i =
                  renderRoute e colors (state\<lparr>index := active\<rparr>) (routes state ! i) i"
      by auto
    have "map (elevated colors) (items bar') = ?flags"
      by (rule elevated_items [OF len' nth'])
    then show "elevatedFlags e colorScheme (state\<lparr>index := active\<rparr>) = Inr ?flags"
      by (simp add: elevatedFlags_def c bar')
  qed
  have sheet: "map_of (styles os centerButton) ''marginTop'' = Some (Num (- 8))
    \<and> map_of (styles os centerButtonContainer) ''width'' = Some (Num 56)
    \<and> map_of (styles os centerButtonContainer) ''height'' = Some (Num 56)
    \<and> map_of (styles os centerButtonContainer) ''borderRadius'' = Some (Num 28)"
    by (simp add: styles_def)
  have orange: "primaryOrange colors = ''#FF6B35''"
    using c by (cases colorScheme) (auto simp: paletteFor_def nullish_def Colors_def)
  from c bar len ef one others indep sheet orange show ?thesis by blast
qed

theorem elevated_only_at_index_two_witness:
  "(2::nat) < length (routes \<lparr> routes = sampleRoutes, index = 0 \<rparr>)
   \<and> (\<exists>bar colors.
         paletteFor CS_dark = Inr colors
       \<and> CustomTabBar (sampleEnv ''ios'' []) CS_dark
            \<lparr> routes = sampleRoutes, index = 0 \<rparr> = Inr bar
       \<and> length (items bar) = 5
       \<and> elevatedFlags (sampleEnv ''ios'' []) CS_dark \<lparr> routes = sampleRoutes, index = 0 \<rparr>
           = Inr [False, False, True, False, False]
       \<and> count_list [False, False, True, False, False] True = 1
       \<and> elevated colors (items bar ! 2)
       \<and> neutral colors True (items bar ! 0)
       \<and> neutral colors False (items bar ! 4)
       \<and> elevatedFlags (sampleEnv ''ios'' []) CS_dark \<lparr> routes = sampleRoutes, index = 3 \<rparr>
           = Inr [False, False, True, False, False])"
proof -
  let ?st = "\<lparr> routes = sampleRoutes, index = 0 \<rparr>"
  let ?e = "sampleEnv ''ios'' []"
  have three: "(2::nat) < length (routes ?st)" by simp
  from elevated_only_at_index_two [of CS_dark ?e ?st "''ios''"]
  obtain bar colors flags where
    c: "paletteFor CS_dark = Inr colors"
    and bar: "CustomTabBar ?e CS_dark ?st = Inr bar"
    and len: "length (items bar) = length (routes ?st)"
    and ef: "elevatedFlags ?e CS_dark ?st = Inr flags"
    and fl: "flags = map (\<lambda>i. i = 2) [0..<length (routes ?st)]"
    and one: "2 < length (routes ?st) \<longrightarrow>
         count_list flags True = 1 \<and> elevated colors (items bar ! 2)"
    and others: "\<forall>i<length (routes ?st). i \<noteq> 2 \<longrightarrow>
         neutral colors (index ?st = int i) (items bar ! i)"
    and indep: "\<forall>active. elevatedFlags ?e CS_dark (?st\<lparr>index := active\<rparr>) = Inr flags"
    by blast
  have flags: "flags = [False, False, True, False, False]"
    using fl by (simp add: upt_rec)
  from len have five: "length (items bar) = 5" by simp
  from one three flags have cnt: "count_list [False, False, True, False, False] True = 1"
    and el: "elevated colors (items bar ! 2)" by auto
  from others [rule_format, of 0] have n0: "neutral colors True (items bar ! 0)"
    by simp
  from others [rule_format, of 4] have n4: "neutral colors False (items bar ! 4)"
    by simp
  from indep flags have
    "elevatedFlags ?e CS_dark (?st\<lparr>index := 3\<rparr>) = Inr [False, False, True, False, False]"
    by blast
  then have other: "elevatedFlags ?e CS_dark \<lparr> routes = sampleRoutes, index = 3 \<rparr>
     = Inr [False, False, True, False, False]" by simp
  from three c bar five ef flags cnt el n0 n4 other show ?thesis by blast
qed

section \<open>The registered screens\<close>

text \<open>
  C8. For every colour scheme the layout registers exactly five screens, in the order
  \<open>index\<close>, \<open>recipients\<close>, \<open>send-money\<close>, \<open>track\<close>, \<open>locations\<close>. Each screen has
  the two props \<open>name\<close> and \<open>options\<close> only, and its options have the two keys
  \<open>title\<close> and \<open>tabBarLabel\<close> only, so no screen is given parameters.
\<close>

theorem TabLayout_registers_five_screens:
  "\<exists>layout. TabLayout e colorScheme = Inr layout
     \<and> length (children layout) = 5
     \<and> map screenName (children layout) = map Some knownRoutes
     \<and> knownRoutes = [''index'', ''recipients'', ''send-money'', ''track'', ''locations'']
     \<and> map (map fst) (children layout) = replicate 5 [''name'', ''options'']
     \<and> map screenOptionKeys (children layout) = replicate 5 (Some [''title'', ''tabBarLabel''])"
proof -
  obtain colors where c: "paletteFor colorScheme = Inr colors"
    using paletteFor_total by blast
  show ?thesis
    unfolding TabLayout_total [OF c]
    by (simp add: screenName_def screenOptionKeys_def knownRoutes_def eval_nat_numeral)
qed

section \<open>A missing colour scheme\<close>

text \<open>
  C10. When the colour scheme is \<open>null\<close> or \<open>undefined\<close>, the tab bar and the layout
  both use the light palette: the bar is the one rendered for \<open>light\<close>, and the two
  tints of the layout are the light ones. For every value of the colour scheme the
  palette is found, so neither component fails.
\<close>

theorem missing_colorScheme_falls_back_to_light:
  assumes "colorScheme = CS_null \<or> colorScheme = CS_undefined"
  shows "\<exists>light bar layout.
      Colors CS_light = Some light
    \<and> paletteFor colorScheme = Inr light
    \<and> CustomTabBar e colorScheme state = Inr bar
    \<and> CustomTabBar e CS_light state = Inr bar
    \<and> bar_style bar = [Named tabBar, BackgroundColor (tabBarBackground light)]
    \<and> TabLayout e colorScheme = Inr layout
    \<and> map_of (screenOptions layout) ''tabBarActiveTintColor'' = Some (JStr (tabIconSelected light))
    \<and> map_of (screenOptions layout) ''tabBarInactiveTintColor'' = Some (JStr (tabIconDefault light))
    \<and> (\<forall>cs. \<exists>colors. paletteFor cs = Inr colors)"
proof -
  obtain light where l: "Colors CS_light = Some light"
    by (simp add: Colors_def)
  from assms l have p: "paletteFor colorScheme = Inr light"
    by (auto simp: paletteFor_def nullish_def)
  from l have pl: "paletteFor CS_light = Inr light"
    by (simp add: paletteFor_def nullish_def)
  from CustomTabBar_items [OF p] obtain bar where
    bar: "CustomTabBar e colorScheme state = Inr bar" by blast
  have same: "CustomTabBar e CS_light state = CustomTabBar e colorScheme state"
    by (simp add: CustomTabBar_def p pl)
  from bar p have style: "bar_style bar = [Named tabBar, BackgroundColor (tabBarBackground light)]"
    by (auto simp: CustomTabBar_def)
  have tints: "\<exists>layout. TabLayout e colorScheme = Inr layout
    \<and> map_of (screenOptions layout) ''tabBarActiveTintColor'' = Some (JStr (tabIconSelected light))
    \<and> map_of (screenOptions layout) ''tabBarInactiveTintColor'' = Some (JStr (tabIconDefault light))"
    unfolding TabLayout_total [OF p] by simp
  from l p bar same style tints paletteFor_total show ?thesis by metis
qed

theorem missing_colorScheme_falls_back_to_light_witness:
  "(CS_undefined = CS_null \<or> CS_undefined = CS_undefined)
   \<and> (\<exists>light bar.
      Colors CS_light = Some light
    \<and> paletteFor CS_undefined = Inr light
    \<and> tabIconSelected light = ''#000000''
    \<and> CustomTabBar (sampleEnv ''web'' []) CS_undefined \<lparr> routes = sampleRoutes, index = 0 \<rparr>
        = Inr bar
    \<and> CustomTabBar (sampleEnv ''web'' []) CS_light \<lparr> routes = sampleRoutes, index = 0 \<rparr>
        = Inr bar
    \<and> bar_style bar = [Named tabBar, BackgroundColor ''#FFFFFF''])"
proof -
  have missing: "CS_undefined = CS_null \<or> CS_undefined = CS_undefined" by simp
  from missing_colorScheme_falls_back_to_light
    [OF missing, of "sampleEnv ''web'' []" "\<lparr> routes = sampleRoutes, index = 0 \<rparr>"]
  obtain light bar where
    l: "Colors CS_light = Some light"
    and p: "paletteFor CS_undefined = Inr light"
    and b: "CustomTabBar (sampleEnv ''web'' []) CS_undefined
              \<lparr> routes = sampleRoutes, index = 0 \<rparr> = Inr bar"
    and b': "CustomTabBar (sampleEnv ''web'' []) CS_light
              \<lparr> routes = sampleRoutes, index = 0 \<rparr> = Inr bar"
    and s: "bar_style bar = [Named tabBar, BackgroundColor (tabBarBackground light)]"
    by blast
  from l have sel: "tabIconSelected light = ''#000000''"
    and bg: "tabBarBackground light = ''#FFFFFF''"
    by (auto simp: Colors_def)
  from s bg have s': "bar_style bar = [Named tabBar, BackgroundColor ''#FFFFFF'']" by simp
  from l p sel b b' s' show ?thesis by blast
qed

end
